theory Spec2Isabelle
  imports Complex_Main "HOL-Library.Word"
begin

section \<open>Strings\<close>

text \<open>
  A JavaScript string is a sequence of UTF-16 code units. The messages that
  \<open>validateSMILES\<close> returns are ASCII literals of the source and are kept as
  HOL strings; \<open>ascii\<close> turns an ASCII literal into code units.
\<close>

type_synonym code_unit = "16 word"
type_synonym jsstring = "code_unit list"

definition ascii :: "string \<Rightarrow> jsstring" where
  "ascii s = map (\<lambda>c. of_nat (of_char c)) s"

section \<open>The input validator (MoleculeInput, validateSMILES)\<close>

text \<open>
  \<open>String.prototype.trim\<close> removes the code units of WhiteSpace and
  LineTerminator from both ends: TAB, LF, VT, FF, CR, SP, NBSP, U+1680,
  U+2000 to U+200A, U+2028, U+2029, U+202F, U+205F, U+3000 and U+FEFF.
\<close>

definition is_white_space :: "code_unit \<Rightarrow> bool" where
  "is_white_space c \<longleftrightarrow>
     c = 0x09 \<or> c = 0x0A \<or> c = 0x0B \<or> c = 0x0C \<or> c = 0x0D \<or> c = 0x20 \<or>
     c = 0xA0 \<or> c = 0x1680 \<or> (0x2000 \<le> c \<and> c \<le> 0x200A) \<or>
     c = 0x2028 \<or> c = 0x2029 \<or> c = 0x202F \<or> c = 0x205F \<or> c = 0x3000 \<or>
     c = 0xFEFF"

definition trim :: "jsstring \<Rightarrow> jsstring" where
  "trim s = rev (dropWhile is_white_space (rev (dropWhile is_white_space s)))"

text \<open>
  The class of the regular expression \<open>invalidChars\<close>, without its negation:
  \<open>A-Z\<close>, \<open>a-z\<close>, \<open>0-9\<close> and the symbols
  \<open>[ ] ( ) = # + - @ / \ .\<close>
\<close>

definition allowed_char :: "code_unit \<Rightarrow> bool" where
  "allowed_char c \<longleftrightarrow>
     (0x41 \<le> c \<and> c \<le> 0x5A) \<or> (0x61 \<le> c \<and> c \<le> 0x7A) \<or> (0x30 \<le> c \<and> c \<le> 0x39) \<or>
     c = 0x5B \<or> c = 0x5D \<or> c = 0x28 \<or> c = 0x29 \<or> c = 0x3D \<or> c = 0x23 \<or>
     c = 0x2B \<or> c = 0x2D \<or> c = 0x40 \<or> c = 0x2F \<or> c = 0x5C \<or> c = 0x2E"

text \<open>\<open>invalidChars.test(s)\<close>: some code unit of \<open>s\<close> is outside the class.\<close>

definition invalidChars_test :: "jsstring \<Rightarrow> bool" where
  "invalidChars_test s = list_ex (\<lambda>c. \<not> allowed_char c) s"

text \<open>
  \<open>s.match(/[\[\]()]/g) || []\<close>: the bracket code units of \<open>s\<close>, in order
  (\<open>match\<close> gives \<open>null\<close> when there is none, replaced by the empty array).
\<close>

definition is_bracket :: "code_unit \<Rightarrow> bool" where
  "is_bracket c \<longleftrightarrow> c = 0x5B \<or> c = 0x5D \<or> c = 0x28 \<or> c = 0x29"

definition brackets_of :: "jsstring \<Rightarrow> code_unit list" where
  "brackets_of s = filter is_bracket s"

text \<open>
  The \<open>for ... of\<close> loop over the brackets, with the two counters
  \<open>squareCount\<close> and \<open>roundCount\<close> as the loop state.
\<close>

fun count_brackets :: "code_unit list \<Rightarrow> int \<times> int \<Rightarrow> int \<times> int" where
  "count_brackets [] (squareCount, roundCount) = (squareCount, roundCount)"
| "count_brackets (bracket # rest) (squareCount, roundCount) =
     (if bracket = 0x5B then count_brackets rest (squareCount + 1, roundCount)
      else if bracket = 0x5D then count_brackets rest (squareCount - 1, roundCount)
      else if bracket = 0x28 then count_brackets rest (squareCount, roundCount + 1)
      else if bracket = 0x29 then count_brackets rest (squareCount, roundCount - 1)
      else count_brackets rest (squareCount, roundCount))"

text \<open>
  \<open>validateSMILES\<close> returns the error message, or the empty string when the
  input passes the three checks.
\<close>

definition validateSMILES :: "jsstring \<Rightarrow> string" where
  "validateSMILES smilesString =
     (if trim smilesString = [] then ''SMILES string cannot be empty''
      else if invalidChars_test smilesString then ''SMILES contains invalid characters''
      else
        (case count_brackets (brackets_of smilesString) (0, 0) of
           (squareCount, roundCount) \<Rightarrow>
             if squareCount \<noteq> 0 \<or> roundCount \<noteq> 0 then ''Unbalanced brackets in SMILES''
             else ''''))"

section \<open>JavaScript values\<close>

text \<open>
  A JavaScript number is an IEEE double: a real number, an infinity or NaN.
  \<open>JSON.parse\<close> gives finite numbers and, for a literal out of range, an
  infinity; NaN arises from coercing \<open>undefined\<close>.
\<close>

datatype number = NaN | NegInfinity | Finite real | PosInfinity

text \<open>
  The values \<open>response.json()\<close> can give, and \<open>undefined\<close>. \<open>JObj\<close> holds
  the own properties of an object in the order the engine enumerates them.
\<close>

datatype jsval =
    JUndefined
  | JNull
  | JBool bool
  | JNum number
  | JStr jsstring
  | JArr "jsval list"
  | JObj "(jsstring \<times> jsval) list"

text \<open>ToBoolean, as used by \<open>!\<close>, \<open>||\<close> and \<open>? :\<close>.\<close>

fun truthy :: "jsval \<Rightarrow> bool" where
  "truthy JUndefined = False"
| "truthy JNull = False"
| "truthy (JBool b) = b"
| "truthy (JNum NaN) = False"
| "truthy (JNum (Finite r)) = (r \<noteq> 0)"
| "truthy (JNum NegInfinity) = True"
| "truthy (JNum PosInfinity) = True"
| "truthy (JStr s) = (s \<noteq> [])"
| "truthy (JArr xs) = True"
| "truthy (JObj kvs) = True"

text \<open>
  What the \<open>try\<close> block of \<open>handlePrediction\<close> can throw: the rejection of
  \<open>fetch\<close>, the rejection of \<open>response.json()\<close>, the \<open>Error\<close> the source
  constructs (with the argument of the constructor), and the three TypeErrors
  of the language: reading a property of \<open>undefined\<close> or \<open>null\<close>,
  \<open>Object.entries\<close> of \<open>undefined\<close> or \<open>null\<close>, and the conversion to
  a primitive of an object or array that has none.
\<close>

datatype exn =
    FetchRejected
  | JsonRejected
  | ErrorThrown jsval
  | CannotReadProperty jsval jsstring
  | CannotConvertToObject jsval
  | CannotConvertToPrimitive jsval

definition and_then :: "exn + 'a \<Rightarrow> ('a \<Rightarrow> exn + 'b) \<Rightarrow> exn + 'b" where
  "and_then r f = (case r of Inl e \<Rightarrow> Inl e | Inr x \<Rightarrow> f x)"

definition nullish :: "jsval \<Rightarrow> bool" where
  "nullish v \<longleftrightarrow> v = JUndefined \<or> v = JNull"

text \<open>
  \<open>v.k\<close> for a value \<open>v\<close> that is neither \<open>undefined\<close> nor \<open>null\<close>, for
  the property names the source reads (none of them is an index, \<open>length\<close>
  or a method of a prototype): the property of an object, \<open>undefined\<close> where
  the object has none and on every other value.
\<close>

fun property_of :: "jsval \<Rightarrow> jsstring \<Rightarrow> jsval" where
  "property_of (JObj kvs) k = (case map_of kvs k of None \<Rightarrow> JUndefined | Some v \<Rightarrow> v)"
| "property_of v k = JUndefined"

definition get :: "jsval \<Rightarrow> jsstring \<Rightarrow> exn + jsval" where
  "get v k = (if nullish v then Inl (CannotReadProperty v k) else Inr (property_of v k))"

text \<open>\<open>v.a.b\<close>\<close>

definition get2 :: "jsval \<Rightarrow> jsstring \<Rightarrow> jsstring \<Rightarrow> exn + jsval" where
  "get2 v a b = and_then (get v a) (\<lambda>x. get x b)"

text \<open>The decimal digits of an array index, as a property key.\<close>

fun index_key :: "nat \<Rightarrow> jsstring" where
  "index_key n =
     (if n < 10 then [of_nat (48 + n)]
      else index_key (n div 10) @ [of_nat (48 + n mod 10)])"

text \<open>
  \<open>Object.entries\<close>: the key and value pairs of an object in enumeration
  order; the indexed elements of an array and the indexed code units of a
  string; nothing for a number or a boolean; a TypeError for \<open>undefined\<close> and
  \<open>null\<close>.
\<close>

fun Object_entries :: "jsval \<Rightarrow> exn + (jsstring \<times> jsval) list" where
  "Object_entries JUndefined = Inl (CannotConvertToObject JUndefined)"
| "Object_entries JNull = Inl (CannotConvertToObject JNull)"
| "Object_entries (JObj kvs) = Inr kvs"
| "Object_entries (JArr xs) = Inr (zip (map index_key [0..<length xs]) xs)"
| "Object_entries (JStr s) = Inr (zip (map index_key [0..<length s]) (map (\<lambda>c. JStr [c]) s))"
| "Object_entries (JBool b) = Inr []"
| "Object_entries (JNum n) = Inr []"

text \<open>
  ToPrimitive (under either hint) of a value that came from JSON throws a
  TypeError in these cases only. An object with an own property \<open>toString\<close>
  has no callable \<open>toString\<close>, since no JSON value is a function, and its
  \<open>valueOf\<close> is an own property that is not callable or
  \<open>Object.prototype.valueOf\<close>, which returns the object, not a primitive.
  An object without that property converts by \<open>Object.prototype.toString\<close>.
  An array converts by \<open>join\<close>, which converts every element other than
  \<open>undefined\<close> and \<open>null\<close> to a string, and throws where that does.
\<close>

fun ToPrimitive_throws :: "jsval \<Rightarrow> bool" where
  "ToPrimitive_throws (JObj kvs) = (map_of kvs (ascii ''toString'') \<noteq> None)"
| "ToPrimitive_throws (JArr xs) = list_ex ToPrimitive_throws xs"
| "ToPrimitive_throws v = False"

text \<open>
  The two parts of the language the model does not compute are parameters:
  the upper-case mapping of Unicode outside ASCII, and the number that a
  string, or the string an array converts to, stands for.
\<close>

record engine =
  unicode_upper :: "code_unit \<Rightarrow> jsstring"
  coerce_number :: "jsval \<Rightarrow> number"

text \<open>
  ToNumber, as the comparison \<^verbatim>\<open>>\<close> applies it to its left operand. An
  object or array is converted to a primitive first, which can throw; an
  object that converts gives the string \<open>[object Object]\<close>, which is NaN.
\<close>

fun to_number :: "engine \<Rightarrow> jsval \<Rightarrow> exn + number" where
  "to_number eng JUndefined = Inr NaN"
| "to_number eng JNull = Inr (Finite 0)"
| "to_number eng (JBool b) = Inr (Finite (if b then 1 else 0))"
| "to_number eng (JNum n) = Inr n"
| "to_number eng (JStr s) = Inr (coerce_number eng (JStr s))"
| "to_number eng (JObj kvs) =
     (if ToPrimitive_throws (JObj kvs) then Inl (CannotConvertToPrimitive (JObj kvs))
      else Inr NaN)"
| "to_number eng (JArr xs) =
     (if ToPrimitive_throws (JArr xs) then Inl (CannotConvertToPrimitive (JArr xs))
      else Inr (coerce_number eng (JArr xs)))"

text \<open>The comparison \<^verbatim>\<open>a > b\<close> on numbers: false when either side is NaN.\<close>

fun greater_than :: "number \<Rightarrow> number \<Rightarrow> bool" where
  "greater_than NaN b = False"
| "greater_than a NaN = False"
| "greater_than NegInfinity b = False"
| "greater_than a PosInfinity = False"
| "greater_than PosInfinity b = True"
| "greater_than a NegInfinity = True"
| "greater_than (Finite x) (Finite y) = (x > y)"

text \<open>
  \<open>toUpperCase\<close> on one code unit: an ASCII lower-case letter becomes the
  upper-case one, every other ASCII unit stays, a unit outside ASCII goes
  through the engine's table (which may give several units). The source
  applies \<open>toUpperCase\<close> to \<open>charAt(0)\<close> only, a string of at most one unit.
\<close>

definition upper_unit :: "engine \<Rightarrow> code_unit \<Rightarrow> jsstring" where
  "upper_unit eng c =
     (if 0x61 \<le> c \<and> c \<le> 0x7A then [c - 0x20]
      else if c < 0x80 then [c]
      else unicode_upper eng c)"

definition toUpperCase :: "engine \<Rightarrow> jsstring \<Rightarrow> jsstring" where
  "toUpperCase eng s = concat (map (upper_unit eng) s)"

definition charAt_0 :: "jsstring \<Rightarrow> jsstring" where
  "charAt_0 s = take 1 s"

definition slice_1 :: "jsstring \<Rightarrow> jsstring" where
  "slice_1 s = drop 1 s"

section \<open>The result normalizer (App, handlePrediction)\<close>

record group =
  name :: jsstring
  probability :: jsval
  detected :: bool
  confidence :: jsval

record prediction =
  smiles :: jsval
  hasGroups :: jsval
  confidence :: jsval
  level1Prediction :: jsval
  functionalGroups :: "group list"
  detectedGroups :: jsval
  totalDetected :: jsval
  modelUsed :: jsval
  processingTime :: jsval
  inDataset :: jsval
  warnings :: jsval
  timestamp :: jsval
  featureCount :: jsval

text \<open>
  The arrow function mapped over the entries of \<open>functional_groups\<close>; the
  comparison of the probability with 0.5 is the one step of it that can throw.
\<close>

fun group_of_entry :: "engine \<Rightarrow> jsstring \<times> jsval \<Rightarrow> exn + group" where
  "group_of_entry eng (name', probability') =
     and_then (to_number eng probability') (\<lambda>n.
       Inr \<lparr> name = toUpperCase eng (charAt_0 name') @ slice_1 name',
             probability = probability',
             detected = greater_than n (Finite 0.5),
             confidence = probability' \<rparr>)"

text \<open>
  \<open>Array.prototype.map\<close> with a callback that can throw: the elements in
  order, ended by the first call that throws.
\<close>

fun map_throwing :: "('a \<Rightarrow> exn + 'b) \<Rightarrow> 'a list \<Rightarrow> exn + 'b list" where
  "map_throwing f [] = Inr []"
| "map_throwing f (x # xs) =
     and_then (f x) (\<lambda>y. and_then (map_throwing f xs) (\<lambda>ys. Inr (y # ys)))"

text \<open>
  The object literal \<open>transformedPrediction\<close>, its properties evaluated in
  the order of the source; the first property read that throws ends it.
\<close>

definition transform :: "engine \<Rightarrow> jsval \<Rightarrow> exn + prediction" where
  "transform eng result =
     and_then (get result (ascii ''smiles'')) (\<lambda>v_smiles.
     and_then (get2 result (ascii ''level1'') (ascii ''has_functional_groups'')) (\<lambda>v_hasGroups.
     and_then (get2 result (ascii ''level1'') (ascii ''confidence'')) (\<lambda>v_confidence.
     and_then (get2 result (ascii ''level1'') (ascii ''prediction'')) (\<lambda>v_level1Prediction.
     and_then (get2 result (ascii ''level2'') (ascii ''functional_groups'')) (\<lambda>v_groups.
     and_then (Object_entries v_groups) (\<lambda>entries.
     and_then (map_throwing (group_of_entry eng) entries) (\<lambda>groups.
     and_then (get2 result (ascii ''level2'') (ascii ''detected_groups'')) (\<lambda>v_detectedGroups.
     and_then (get2 result (ascii ''level2'') (ascii ''total_detected'')) (\<lambda>v_totalDetected.
     and_then (get2 result (ascii ''metadata'') (ascii ''algorithm'')) (\<lambda>v_modelUsed.
     and_then (get result (ascii ''processing_time'')) (\<lambda>v_processingTime.
     and_then (get2 result (ascii ''metadata'') (ascii ''in_dataset'')) (\<lambda>v_inDataset.
     and_then (get result (ascii ''warnings'')) (\<lambda>v_warnings.
     and_then (get result (ascii ''timestamp'')) (\<lambda>v_timestamp.
     and_then (get2 result (ascii ''metadata'') (ascii ''feature_count'')) (\<lambda>v_featureCount.
       Inr \<lparr> smiles = v_smiles,
             hasGroups = v_hasGroups,
             confidence = v_confidence,
             level1Prediction = v_level1Prediction,
             functionalGroups = groups,
             detectedGroups = v_detectedGroups,
             totalDetected = v_totalDetected,
             modelUsed = v_modelUsed,
             processingTime = v_processingTime,
             inDataset = v_inDataset,
             warnings = (if truthy v_warnings then v_warnings else JArr []),
             timestamp = v_timestamp,
             featureCount = v_featureCount \<rparr>)))))))))))))))"

text \<open>
  PredictionResults, the "Binary prediction" line:
  \<open>level1Prediction || (hasGroups ? 'HAS_GROUPS' : 'NO_GROUPS')\<close>.
\<close>

definition binary_prediction :: "prediction \<Rightarrow> jsval" where
  "binary_prediction data =
     (if truthy (level1Prediction data) then level1Prediction data
      else if truthy (hasGroups data) then JStr (ascii ''HAS_GROUPS'')
      else JStr (ascii ''NO_GROUPS''))"

section \<open>The request (App, handlePrediction)\<close>

text \<open>
  What \<open>fetch\<close> gives back: a rejection, or a response with its \<open>ok\<close> flag
  and its body, \<open>None\<close> when the body is not JSON and \<open>response.json()\<close>
  rejects.
\<close>

datatype fetch_outcome = Rejected | Response bool "jsval option"

text \<open>The notifications, one constructor for each \<open>toast\<close> call of the function.\<close>

datatype toast =
    Error_BackendNotConnected
  | Error_ModelsNotLoaded
  | Error_PredictionFailed exn
  | Success_Found jsval
  | Success_NoGroups

fun is_error_toast :: "toast \<Rightarrow> bool" where
  "is_error_toast (Success_Found v) = False"
| "is_error_toast Success_NoGroups = False"
| "is_error_toast t = True"

record system_status =
  backendConnected :: bool
  modelsLoaded :: bool
  datasetLoaded :: bool

text \<open>
  The state of \<open>App\<close> that \<open>handlePrediction\<close> reads and writes
  (\<open>predictionData\<close> is \<open>null\<close> or a prediction; of \<open>modelStats\<close> only
  \<open>totalPredictions\<close> changes), with the toasts shown and the errors written
  to the console, oldest first.
\<close>

record app_state =
  predictionData :: "prediction option"
  isLoading :: bool
  systemStatus :: system_status
  totalPredictions :: nat
  toasts :: "toast list"
  console_errors :: "exn list"

text \<open>
  \<open>throw new Error(x)\<close>: the constructor converts its argument to a string,
  which throws a TypeError of its own where the argument has no primitive.
\<close>

definition throw_new_Error :: "jsval \<Rightarrow> exn" where
  "throw_new_Error x =
     (if ToPrimitive_throws x then CannotConvertToPrimitive x else ErrorThrown x)"

text \<open>The \<open>try\<close> block up to the transformed prediction.\<close>

definition request_prediction :: "engine \<Rightarrow> fetch_outcome \<Rightarrow> exn + prediction" where
  "request_prediction eng outcome =
     (case outcome of
        Rejected \<Rightarrow> Inl FetchRejected
      | Response ok None \<Rightarrow> Inl JsonRejected
      | Response ok (Some result) \<Rightarrow>
          and_then (get result (ascii ''success'')) (\<lambda>success.
            if \<not> truthy success then
              and_then (get result (ascii ''message'')) (\<lambda>message.
                Inl (throw_new_Error (if truthy message then message
                                      else JStr (ascii ''Prediction failed''))))
            else transform eng result))"

text \<open>The \<open>catch\<close> block.\<close>

definition catch_block :: "exn \<Rightarrow> app_state \<Rightarrow> app_state" where
  "catch_block error st =
     st\<lparr>console_errors := console_errors st @ [error],
        toasts := toasts st @ [Error_PredictionFailed error],
        predictionData := None\<rparr>"

text \<open>
  \<open>handlePrediction\<close>, with the answer of the backend to the request for
  \<open>smiles\<close> and the two readings of \<open>Date.now()\<close> as arguments (a prime
  marks a variable of the source whose name is also a field of a record).
  The success toast interpolates \<open>totalDetected\<close> into a template, a
  conversion to a string that can throw, after the two state updates and
  inside the \<open>try\<close> block.
\<close>

definition handlePrediction ::
  "engine \<Rightarrow> (jsstring \<Rightarrow> fetch_outcome) \<Rightarrow> int \<Rightarrow> int \<Rightarrow> jsstring \<Rightarrow> app_state \<Rightarrow> app_state" where
  "handlePrediction eng fetch startTime now smiles' st =
     (if \<not> backendConnected (systemStatus st) then
        st\<lparr>toasts := toasts st @ [Error_BackendNotConnected]\<rparr>
      else if \<not> modelsLoaded (systemStatus st) then
        st\<lparr>toasts := toasts st @ [Error_ModelsNotLoaded]\<rparr>
      else
        let st1 = st\<lparr>isLoading := True\<rparr>;
            processingTime' = (real_of_int (now - startTime)) / 1000;
            st2 =
              (case request_prediction eng (fetch smiles') of
                 Inr transformedPrediction \<Rightarrow>
                   let st' = st1\<lparr>predictionData := Some transformedPrediction,
                                  totalPredictions := totalPredictions st1 + 1\<rparr>
                   in if truthy (hasGroups transformedPrediction) then
                        if ToPrimitive_throws (totalDetected transformedPrediction) then
                          catch_block
                            (CannotConvertToPrimitive (totalDetected transformedPrediction)) st'
                        else
                          st'\<lparr>toasts := toasts st' @
                                [Success_Found (totalDetected transformedPrediction)]\<rparr>
                      else st'\<lparr>toasts := toasts st' @ [Success_NoGroups]\<rparr>
               | Inl error \<Rightarrow> catch_block error st1)
        in st2\<lparr>isLoading := False\<rparr>)"

section \<open>Example inputs\<close>

text \<open>
  An engine for inputs with ASCII names and numeric probabilities: it leaves
  code units outside ASCII unchanged and coerces nothing to a number.
\<close>

definition plain_engine :: engine where
  "plain_engine = \<lparr> unicode_upper = (\<lambda>c. [c]), coerce_number = (\<lambda>v. NaN) \<rparr>"

text \<open>
  A successful answer of \<open>/predict\<close> with the given \<open>level1\<close> and
  \<open>level2\<close> parts.
\<close>

definition response_with :: "jsval \<Rightarrow> jsval \<Rightarrow> jsval" where
  "response_with level1 level2 =
     JObj [(ascii ''success'', JBool True),
           (ascii ''smiles'', JStr (ascii ''CCO'')),
           (ascii ''level1'', level1),
           (ascii ''level2'', level2),
           (ascii ''metadata'',
              JObj [(ascii ''algorithm'', JStr (ascii ''rf'')),
                    (ascii ''in_dataset'', JBool True),
                    (ascii ''feature_count'', JNum (Finite 64))]),
           (ascii ''processing_time'', JNum (Finite 0.25)),
           (ascii ''timestamp'', JStr (ascii ''2024-01-01''))]"

definition level1_full :: jsval where
  "level1_full =
     JObj [(ascii ''has_functional_groups'', JBool True),
           (ascii ''confidence'', JNum (Finite 0.95)),
           (ascii ''prediction'', JStr (ascii ''HAS_GROUPS''))]"

text \<open>A \<open>level1\<close> part without the \<open>prediction\<close> label.\<close>

definition level1_no_label :: jsval where
  "level1_no_label =
     JObj [(ascii ''has_functional_groups'', JBool True),
           (ascii ''confidence'', JNum (Finite 0.95))]"

text \<open>A \<open>level1\<close> part without the \<open>confidence\<close>.\<close>

definition level1_no_confidence :: jsval where
  "level1_no_confidence =
     JObj [(ascii ''has_functional_groups'', JBool True),
           (ascii ''prediction'', JStr (ascii ''HAS_GROUPS''))]"

definition level2_three :: jsval where
  "level2_three =
     JObj [(ascii ''functional_groups'',
              JObj [(ascii ''alcohol'', JNum (Finite 0.9)),
                    (ascii ''amine'', JNum (Finite 0.3)),
                    (ascii ''ether'', JNum (Finite 0.5))]),
           (ascii ''detected_groups'', JArr [JStr (ascii ''alcohol'')]),
           (ascii ''total_detected'', JNum (Finite 1))]"

text \<open>A \<open>level2\<close> part whose \<open>total_detected\<close> is not the number of groups above 0.5.\<close>

definition level2_miscounted :: jsval where
  "level2_miscounted =
     JObj [(ascii ''functional_groups'', JObj [(ascii ''alcohol'', JNum (Finite 0.9))]),
           (ascii ''detected_groups'', JArr [JStr (ascii ''alcohol'')]),
           (ascii ''total_detected'', JNum (Finite 5))]"

text \<open>A \<open>level2\<close> part without the \<open>functional_groups\<close> mapping.\<close>

definition level2_no_groups :: jsval where
  "level2_no_groups =
     JObj [(ascii ''detected_groups'', JArr []),
           (ascii ''total_detected'', JNum (Finite 0))]"

text \<open>
  A \<open>level2\<close> part with a probability that is an object with an own
  \<open>toString\<close> property, which has no primitive value.
\<close>

definition level2_unconvertible :: jsval where
  "level2_unconvertible =
     JObj [(ascii ''functional_groups'',
              JObj [(ascii ''alcohol'', JObj [(ascii ''toString'', JNum (Finite 0))])]),
           (ascii ''detected_groups'', JArr []),
           (ascii ''total_detected'', JNum (Finite 0))]"

text \<open>A backend that cannot be reached, and one that always gives the same answer.\<close>

definition unreachable_backend :: "jsstring \<Rightarrow> fetch_outcome" where
  "unreachable_backend smiles' = Rejected"

definition constant_backend :: "jsval \<Rightarrow> jsstring \<Rightarrow> fetch_outcome" where
  "constant_backend result smiles' = Response True (Some result)"

text \<open>
  A state of the application that is ready and shows the prediction
  \<open>shown\<close>.
\<close>

definition showing :: "prediction \<Rightarrow> app_state" where
  "showing shown =
     \<lparr> predictionData = Some shown,
       isLoading = False,
       systemStatus = \<lparr> backendConnected = True, modelsLoaded = True, datasetLoaded = True \<rparr>,
       totalPredictions = 1,
       toasts = [],
       console_errors = [] \<rparr>"

definition empty_prediction :: prediction where
  "empty_prediction =
     \<lparr> smiles = JStr (ascii ''CCO''), hasGroups = JBool False, confidence = JNum (Finite 0.8),
       level1Prediction = JStr (ascii ''NO_GROUPS''), functionalGroups = [],
       detectedGroups = JArr [], totalDetected = JNum (Finite 0),
       modelUsed = JStr (ascii ''rf''), processingTime = JNum (Finite 0.25),
       inDataset = JBool False, warnings = JArr [], timestamp = JStr (ascii ''2024-01-01''),
       featureCount = JNum (Finite 64) \<rparr>"

text \<open>The records that the three groups of \<open>level2_three\<close> give.\<close>

definition groups_three :: "group list" where
  "groups_three =
     [\<lparr> name = ascii ''Alcohol'', probability = JNum (Finite 0.9), detected = True,
         confidence = JNum (Finite 0.9) \<rparr>,
      \<lparr> name = ascii ''Amine'', probability = JNum (Finite 0.3), detected = False,
         confidence = JNum (Finite 0.3) \<rparr>,
      \<lparr> name = ascii ''Ether'', probability = JNum (Finite 0.5), detected = False,
         confidence = JNum (Finite 0.5) \<rparr>]"

text \<open>
  The prediction expected from \<open>response_with\<close>, given the stage-1
  confidence and label, the group records and the count.
\<close>

definition expected :: "jsval \<Rightarrow> jsval \<Rightarrow> group list \<Rightarrow> jsval \<Rightarrow> prediction" where
  "expected conf label groups count =
     \<lparr> smiles = JStr (ascii ''CCO''), hasGroups = JBool True, confidence = conf,
       level1Prediction = label, functionalGroups = groups,
       detectedGroups = JArr [JStr (ascii ''alcohol'')], totalDetected = count,
       modelUsed = JStr (ascii ''rf''), processingTime = JNum (Finite 0.25),
       inDataset = JBool True, warnings = JArr [], timestamp = JStr (ascii ''2024-01-01''),
       featureCount = JNum (Finite 64) \<rparr>"

text \<open>The answer of \<open>/predict\<close> on failure.\<close>

definition failure_response :: jsval where
  "failure_response =
     JObj [(ascii ''success'', JBool False), (ascii ''message'', JStr (ascii ''Invalid SMILES''))]"

section \<open>Properties of the validator\<close>

lemmas validate_defs =
  validateSMILES_def ascii_def trim_def is_white_space_def invalidChars_test_def
  allowed_char_def brackets_of_def is_bracket_def

lemma count_brackets_eq:
  "count_brackets bs (sq, rd) =
     (sq + int (count_list bs 0x5B) - int (count_list bs 0x5D),
      rd + int (count_list bs 0x28) - int (count_list bs 0x29))"
  by (induction bs arbitrary: sq rd) simp_all

lemma count_list_filter_bracket:
  "is_bracket b \<Longrightarrow> count_list (filter is_bracket s) b = count_list s b"
  by (induction s) auto

lemma count_brackets_of:
  "count_brackets (brackets_of s) (0, 0) =
     (int (count_list s 0x5B) - int (count_list s 0x5D),
      int (count_list s 0x28) - int (count_list s 0x29))"
  by (simp add: count_brackets_eq brackets_of_def count_list_filter_bracket is_bracket_def)

lemma white_space_not_allowed: "is_white_space c \<Longrightarrow> \<not> allowed_char c"
  unfolding is_white_space_def allowed_char_def
  by (elim disjE conjE) (simp_all, unat_arith?)

lemma dropWhile_all: "(\<forall>x\<in>set (dropWhile P s). P x) \<longleftrightarrow> (\<forall>x\<in>set s. P x)"
  by (induction s) auto

lemma trim_Nil_iff: "trim s = [] \<longleftrightarrow> list_all is_white_space s"
  by (simp add: trim_def list_all_iff dropWhile_eq_Nil_conv dropWhile_all)

lemma dropWhile_none: "\<forall>c\<in>set s. \<not> P c \<Longrightarrow> dropWhile P s = s"
  by (cases s) auto

lemma trim_id: "\<forall>c\<in>set s. \<not> is_white_space c \<Longrightarrow> trim s = s"
  by (simp add: trim_def dropWhile_none)

lemma invalidChars_test_iff: "invalidChars_test s \<longleftrightarrow> (\<exists>c\<in>set s. \<not> allowed_char c)"
  by (simp add: invalidChars_test_def list_ex_iff)

text \<open>
  C4, as amended. For every string that is not empty after trimming and has
  only allowed characters, the bracket check compares counts and nothing else:
  with as many \<open>(\<close> as \<open>)\<close> and as many \<open>[\<close> as \<open>]\<close>, in any order,
  \<open>validateSMILES\<close> returns the empty string (success), and with unequal
  counts of either kind it returns the unbalanced-brackets message. So
  \<open>([)]\<close> is accepted, and \<open>CC(\<close> and \<open>CC)\<close> are rejected.
\<close>

theorem bracket_check_counts_only:
  assumes "trim s \<noteq> []" and "\<not> invalidChars_test s"
  shows "(count_list s 0x28 = count_list s 0x29 \<and> count_list s 0x5B = count_list s 0x5D
            \<longrightarrow> validateSMILES s = '''')
       \<and> (count_list s 0x28 \<noteq> count_list s 0x29 \<or> count_list s 0x5B \<noteq> count_list s 0x5D
            \<longrightarrow> validateSMILES s = ''Unbalanced brackets in SMILES'')"
  using assms by (auto simp: validateSMILES_def count_brackets_of)

theorem bracket_check_counts_only_witness:
  "trim (ascii ''([)]'') \<noteq> [] \<and> \<not> invalidChars_test (ascii ''([)]'')
   \<and> validateSMILES (ascii ''([)]'') = ''''
   \<and> trim (ascii ''CC('') \<noteq> [] \<and> \<not> invalidChars_test (ascii ''CC('')
   \<and> validateSMILES (ascii ''CC('') = ''Unbalanced brackets in SMILES''
   \<and> validateSMILES (ascii ''CC)'') = ''Unbalanced brackets in SMILES''"
proof -
  have a: "trim (ascii ''([)]'') \<noteq> []" and b: "\<not> invalidChars_test (ascii ''([)]'')"
    by (simp_all add: validate_defs)
  have c: "trim (ascii ''CC('') \<noteq> []" and d: "\<not> invalidChars_test (ascii ''CC('')"
    by (simp_all add: validate_defs)
  have e: "trim (ascii ''CC)'') \<noteq> []" and f: "\<not> invalidChars_test (ascii ''CC)'')"
    by (simp_all add: validate_defs)
  have "validateSMILES (ascii ''([)]'') = ''''"
    using bracket_check_counts_only [OF a b] by (simp add: ascii_def)
  moreover have "validateSMILES (ascii ''CC('') = ''Unbalanced brackets in SMILES''"
    using bracket_check_counts_only [OF c d] by (simp add: ascii_def)
  moreover have "validateSMILES (ascii ''CC)'') = ''Unbalanced brackets in SMILES''"
    using bracket_check_counts_only [OF e f] by (simp add: ascii_def)
  ultimately show ?thesis using a b c d by simp
qed

text \<open>
  C4 as stated fails: the string \<open>C C\<close> has equal counts of both kinds of
  bracket (none) and is not accepted, and the string \<open>C;C(\<close> has unequal
  counts and the result is not the unbalanced-brackets message.
\<close>

theorem bracket_counts_alone_counterexample:
  "count_list (ascii ''C C'') 0x28 = count_list (ascii ''C C'') 0x29
   \<and> count_list (ascii ''C C'') 0x5B = count_list (ascii ''C C'') 0x5D
   \<and> validateSMILES (ascii ''C C'') \<noteq> ''''
   \<and> count_list (ascii ''C;C('') 0x28 \<noteq> count_list (ascii ''C;C('') 0x29
   \<and> validateSMILES (ascii ''C;C('') \<noteq> ''Unbalanced brackets in SMILES''"
  by (simp add: validate_defs)

text \<open>
  C5. The three checks run in a fixed order and the first failure decides the
  result: \<open>validateSMILES\<close> returns the empty string or exactly one of three
  distinct messages; the empty-input message exactly when the trimmed input
  is empty, whatever else is wrong with it; the invalid-characters message
  exactly when the trimmed input is not empty and a character is invalid,
  whatever the brackets are; the unbalanced-brackets message only when both
  earlier checks pass. In particular a string of whitespace only gets the
  empty-input message.
\<close>

theorem validate_first_failure_wins:
  "validateSMILES s \<in> {'''', ''SMILES string cannot be empty'',
        ''SMILES contains invalid characters'', ''Unbalanced brackets in SMILES''}
   \<and> (list_all is_white_space s \<longrightarrow> validateSMILES s = ''SMILES string cannot be empty'')
   \<and> (validateSMILES s = ''SMILES string cannot be empty'' \<longleftrightarrow> trim s = [])
   \<and> (validateSMILES s = ''SMILES contains invalid characters'' \<longleftrightarrow>
        trim s \<noteq> [] \<and> invalidChars_test s)
   \<and> (validateSMILES s = ''Unbalanced brackets in SMILES'' \<longleftrightarrow>
        trim s \<noteq> [] \<and> \<not> invalidChars_test s \<and> count_brackets (brackets_of s) (0, 0) \<noteq> (0, 0))
   \<and> (validateSMILES s = '''' \<longleftrightarrow>
        trim s \<noteq> [] \<and> \<not> invalidChars_test s \<and> count_brackets (brackets_of s) (0, 0) = (0, 0))"
proof -
  have "list_all is_white_space s \<longrightarrow> trim s = []"
    by (simp add: trim_Nil_iff)
  then show ?thesis
    by (auto simp: validateSMILES_def split: prod.splits)
qed

theorem validate_first_failure_wins_witness:
  "list_all is_white_space [0x20, 0x09, 0x0A, 0x3000]
   \<and> validateSMILES [0x20, 0x09, 0x0A, 0x3000] = ''SMILES string cannot be empty''
   \<and> validateSMILES [] = ''SMILES string cannot be empty''"
proof -
  have a: "list_all is_white_space [0x20, 0x09, 0x0A, 0x3000]"
    by (simp add: is_white_space_def)
  have b: "trim [] = []"
    by (simp add: trim_def)
  show ?thesis
    using a b validate_first_failure_wins [of "[0x20, 0x09, 0x0A, 0x3000]"]
      validate_first_failure_wins [of "[]"]
    by simp
qed

text \<open>
  C6, as amended. For every string that is not empty after trimming and
  contains a character outside the allowed set (letters, digits and
  \<open>[ ] ( ) = # + - @ / \ .\<close>), \<open>validateSMILES\<close> returns the
  invalid-characters message, whatever its brackets are: the check comes
  before the bracket check for a string that fails both.
\<close>

theorem invalid_characters_before_brackets:
  assumes "trim s \<noteq> []" and "c \<in> set s" and "\<not> allowed_char c"
  shows "validateSMILES s = ''SMILES contains invalid characters''"
  using assms by (auto simp: validateSMILES_def invalidChars_test_iff)

theorem invalid_characters_before_brackets_witness:
  "trim (ascii ''C;C('') \<noteq> [] \<and> 0x3B \<in> set (ascii ''C;C('') \<and> \<not> allowed_char 0x3B
   \<and> count_brackets (brackets_of (ascii ''C;C('')) (0, 0) \<noteq> (0, 0)
   \<and> validateSMILES (ascii ''C;C('') = ''SMILES contains invalid characters''"
proof -
  have a: "trim (ascii ''C;C('') \<noteq> []"
    by (simp add: validate_defs)
  have b: "0x3B \<in> set (ascii ''C;C('')"
    by (simp add: ascii_def)
  have c: "\<not> allowed_char 0x3B"
    by (simp add: allowed_char_def)
  have d: "count_brackets (brackets_of (ascii ''C;C('')) (0, 0) \<noteq> (0, 0)"
    by (simp add: validate_defs)
  show ?thesis
    using a b c d invalid_characters_before_brackets [OF a b c] by simp
qed

text \<open>
  C6 as stated fails: the string of one space contains a character outside
  the allowed set, and the result is the empty-input message.
\<close>

theorem invalid_characters_counterexample:
  "0x20 \<in> set (ascii '' '') \<and> \<not> allowed_char 0x20
   \<and> validateSMILES (ascii '' '') \<noteq> ''SMILES contains invalid characters''"
  by (simp add: validate_defs)

text \<open>
  C9. The character check reads the untrimmed input and no whitespace
  character is allowed: a string that is not empty after trimming and contains
  a whitespace character anywhere, also only at its ends, gets the
  invalid-characters message; so a string that validates contains no
  whitespace and is its own trim.
\<close>

theorem whitespace_is_invalid:
  "(is_white_space c \<longrightarrow> \<not> allowed_char c)
   \<and> (trim s \<noteq> [] \<and> (\<exists>c\<in>set s. is_white_space c)
        \<longrightarrow> validateSMILES s = ''SMILES contains invalid characters'')
   \<and> (validateSMILES s = '''' \<longrightarrow> (\<forall>c\<in>set s. \<not> is_white_space c) \<and> trim s = s)"
proof -
  have inv: "invalidChars_test s" if "\<exists>c\<in>set s. is_white_space c"
    using that white_space_not_allowed by (auto simp: invalidChars_test_iff)
  have ok: "\<forall>c\<in>set s. \<not> is_white_space c" if "validateSMILES s = ''''"
  proof -
    from that have "\<not> invalidChars_test s"
      by (auto simp: validateSMILES_def split: if_splits)
    with inv show ?thesis by blast
  qed
  have p1: "is_white_space c \<longrightarrow> \<not> allowed_char c"
    using white_space_not_allowed by blast
  have p2: "trim s \<noteq> [] \<and> (\<exists>c\<in>set s. is_white_space c)
        \<longrightarrow> validateSMILES s = ''SMILES contains invalid characters''"
    using inv by (simp add: validateSMILES_def)
  have p3: "validateSMILES s = '''' \<longrightarrow> (\<forall>c\<in>set s. \<not> is_white_space c) \<and> trim s = s"
    using ok trim_id by blast
  show ?thesis
    by (rule conjI [OF p1 conjI [OF p2 p3]])
qed

theorem whitespace_is_invalid_witness:
  "trim (ascii '' CCO '') \<noteq> [] \<and> (\<exists>c\<in>set (ascii '' CCO ''). is_white_space c)
   \<and> validateSMILES (ascii '' CCO '') = ''SMILES contains invalid characters''
   \<and> validateSMILES (ascii ''CCO'') = ''''
   \<and> \<not> list_ex is_white_space (ascii ''CCO'') \<and> trim (ascii ''CCO'') = ascii ''CCO''"
proof -
  have a: "trim (ascii '' CCO '') \<noteq> []"
    by (simp add: validate_defs)
  have b: "\<exists>c\<in>set (ascii '' CCO ''). is_white_space c"
    by (simp add: ascii_def is_white_space_def)
  have c: "validateSMILES (ascii ''CCO'') = ''''"
    by (simp add: validate_defs)
  have "(\<forall>c\<in>set (ascii ''CCO''). \<not> is_white_space c) \<and> trim (ascii ''CCO'') = ascii ''CCO''"
    using c whitespace_is_invalid [of _ "ascii ''CCO''"] by blast
  then have "\<not> list_ex is_white_space (ascii ''CCO'') \<and> trim (ascii ''CCO'') = ascii ''CCO''"
    by (simp add: list_ex_iff)
  then show ?thesis
    using a b c whitespace_is_invalid [of _ "ascii '' CCO ''"]
    by blast
qed

section \<open>Properties of the normalizer and of the request\<close>

lemma and_then_Inr_iff: "and_then r f = Inr y \<longleftrightarrow> (\<exists>x. r = Inr x \<and> f x = Inr y)"
  by (cases r) (simp_all add: and_then_def)

lemma and_then_get_Inr:
  "and_then (get v k) f = Inr y \<longleftrightarrow> \<not> nullish v \<and> f (property_of v k) = Inr y"
  by (simp add: get_def and_then_def)

lemma and_then_get2_Inr:
  "and_then (get2 v a b) f = Inr y \<longleftrightarrow>
     \<not> nullish v \<and> \<not> nullish (property_of v a) \<and> f (property_of (property_of v a) b) = Inr y"
  by (simp add: get2_def get_def and_then_def)

lemma and_then_entries_Inr:
  "and_then (Object_entries v) f = Inr y \<longleftrightarrow> (\<exists>es. Object_entries v = Inr es \<and> f es = Inr y)"
  by (rule and_then_Inr_iff)

lemma and_then_groups_Inr:
  "and_then (map_throwing g es) f = Inr y \<longleftrightarrow> (\<exists>gs. map_throwing g es = Inr gs \<and> f gs = Inr y)"
  by (rule and_then_Inr_iff)

lemma to_number_throws_iff: "isl (to_number eng v) \<longleftrightarrow> ToPrimitive_throws v"
  by (cases v) simp_all

lemma group_of_entry_Inr_iff:
  "group_of_entry eng (k, v) = Inr g \<longleftrightarrow>
     (\<exists>n. to_number eng v = Inr n
        \<and> g = \<lparr> name = toUpperCase eng (charAt_0 k) @ slice_1 k, probability = v,
                 detected = greater_than n (Finite 0.5), confidence = v \<rparr>)"
  by (auto simp: and_then_Inr_iff)

lemma group_of_entry_throws_iff: "isl (group_of_entry eng e) \<longleftrightarrow> ToPrimitive_throws (snd e)"
proof (cases e)
  case (Pair k v)
  then show ?thesis
    using to_number_throws_iff [of eng v]
    by (cases "to_number eng v") (simp_all add: and_then_def)
qed

lemma map_throwing_Inr_iff:
  "map_throwing f xs = Inr ys \<longleftrightarrow> list_all2 (\<lambda>x y. f x = Inr y) xs ys"
proof (induction xs arbitrary: ys)
  case Nil
  then show ?case by auto
next
  case (Cons x xs)
  show ?case
    by (cases ys) (auto simp: and_then_Inr_iff Cons.IH)
qed

lemma map_throwing_throws_iff: "isl (map_throwing f xs) \<longleftrightarrow> list_ex (\<lambda>x. isl (f x)) xs"
proof (induction xs)
  case Nil
  then show ?case by simp
next
  case (Cons x xs)
  then show ?case
    by (cases "f x"; cases "map_throwing f xs") (simp_all add: and_then_def)
qed

lemma groups_throw_iff:
  "isl (map_throwing (group_of_entry eng) es) \<longleftrightarrow> list_ex (\<lambda>e. ToPrimitive_throws (snd e)) es"
  by (simp add: map_throwing_throws_iff group_of_entry_throws_iff)

lemma transform_Inr_iff:
  "transform eng result = Inr p \<longleftrightarrow>
     \<not> nullish result
   \<and> \<not> nullish (property_of result (ascii ''level1''))
   \<and> \<not> nullish (property_of result (ascii ''level2''))
   \<and> \<not> nullish (property_of result (ascii ''metadata''))
   \<and> (\<exists>entries groups.
        Object_entries (property_of (property_of result (ascii ''level2'')) (ascii ''functional_groups''))
          = Inr entries
      \<and> map_throwing (group_of_entry eng) entries = Inr groups
      \<and> p = \<lparr> smiles = property_of result (ascii ''smiles''),
               hasGroups = property_of (property_of result (ascii ''level1'')) (ascii ''has_functional_groups''),
               confidence = property_of (property_of result (ascii ''level1'')) (ascii ''confidence''),
               level1Prediction = property_of (property_of result (ascii ''level1'')) (ascii ''prediction''),
               functionalGroups = groups,
               detectedGroups = property_of (property_of result (ascii ''level2'')) (ascii ''detected_groups''),
               totalDetected = property_of (property_of result (ascii ''level2'')) (ascii ''total_detected''),
               modelUsed = property_of (property_of result (ascii ''metadata'')) (ascii ''algorithm''),
               processingTime = property_of result (ascii ''processing_time''),
               inDataset = property_of (property_of result (ascii ''metadata'')) (ascii ''in_dataset''),
               warnings = (if truthy (property_of result (ascii ''warnings''))
                           then property_of result (ascii ''warnings'') else JArr []),
               timestamp = property_of result (ascii ''timestamp''),
               featureCount = property_of (property_of result (ascii ''metadata'')) (ascii ''feature_count'') \<rparr>)"
  by (simp only: transform_def and_then_get_Inr and_then_get2_Inr and_then_entries_Inr
      and_then_groups_Inr) auto

lemma Object_entries_Inr_iff: "(\<exists>es. Object_entries v = Inr es) \<longleftrightarrow> \<not> nullish v"
  by (cases v) (simp_all add: nullish_def)

lemma transform_succeeds_iff:
  "(\<exists>p. transform eng result = Inr p) \<longleftrightarrow>
     \<not> nullish result
   \<and> \<not> nullish (property_of result (ascii ''level1''))
   \<and> \<not> nullish (property_of result (ascii ''level2''))
   \<and> \<not> nullish (property_of result (ascii ''metadata''))
   \<and> (\<exists>entries.
        Object_entries (property_of (property_of result (ascii ''level2'')) (ascii ''functional_groups''))
          = Inr entries
      \<and> \<not> list_ex (\<lambda>e. ToPrimitive_throws (snd e)) entries)"
proof -
  have "(\<exists>groups. map_throwing (group_of_entry eng) entries = Inr groups) \<longleftrightarrow>
      \<not> list_ex (\<lambda>e. ToPrimitive_throws (snd e)) entries" for entries
    using groups_throw_iff [of eng entries]
    by (cases "map_throwing (group_of_entry eng) entries") simp_all
  then show ?thesis
    unfolding transform_Inr_iff by blast
qed

lemma isl_transform_iff:
  "isl (transform eng result) \<longleftrightarrow>
     nullish result
   \<or> nullish (property_of result (ascii ''level1''))
   \<or> nullish (property_of result (ascii ''level2''))
   \<or> nullish (property_of result (ascii ''metadata''))
   \<or> nullish (property_of (property_of result (ascii ''level2'')) (ascii ''functional_groups''))
   \<or> (\<exists>entries.
        Object_entries (property_of (property_of result (ascii ''level2'')) (ascii ''functional_groups''))
          = Inr entries
      \<and> list_ex (\<lambda>e. ToPrimitive_throws (snd e)) entries)"
proof -
  have "isl (transform eng result) \<longleftrightarrow> \<not> (\<exists>p. transform eng result = Inr p)"
    by (cases "transform eng result") simp_all
  then show ?thesis
    unfolding transform_succeeds_iff
    using Object_entries_Inr_iff
      [of "property_of (property_of result (ascii ''level2'')) (ascii ''functional_groups'')"]
    by auto
qed

text \<open>
  For a response of the specified shape, whose probabilities are numbers, the
  normalizer succeeds as soon as the four containers are there.
\<close>

lemma numeric_entries_do_not_throw:
  "\<forall>e\<in>set entries. \<exists>n. snd e = JNum n \<Longrightarrow> \<not> list_ex (\<lambda>e. ToPrimitive_throws (snd e)) entries"
  by (auto simp: list_ex_iff)

lemma transform_succeeds_on_numbers:
  assumes "\<not> nullish (property_of result (ascii ''level1''))"
    and "\<not> nullish (property_of result (ascii ''level2''))"
    and "\<not> nullish (property_of result (ascii ''metadata''))"
    and "property_of (property_of result (ascii ''level2'')) (ascii ''functional_groups'') = JObj kvs"
    and "\<forall>e\<in>set kvs. \<exists>n. snd e = JNum n"
  shows "\<exists>p. transform eng result = Inr p"
proof -
  from assms(1) have "\<not> nullish result"
    by (cases result) (auto simp: nullish_def)
  with assms numeric_entries_do_not_throw [of kvs] show ?thesis
    unfolding transform_succeeds_iff by simp
qed

lemmas eval_defs = transform_def get2_def get_def and_then_def nullish_def ascii_def
  response_with_def level1_full_def level1_no_label_def level1_no_confidence_def
  level2_three_def level2_miscounted_def level2_no_groups_def level2_unconvertible_def
  plain_engine_def
  toUpperCase_def upper_unit_def charAt_0_def slice_1_def expected_def groups_three_def

lemma transform_full:
  "transform plain_engine (response_with level1_full level2_three) =
     Inr (expected (JNum (Finite 0.95)) (JStr (ascii ''HAS_GROUPS'')) groups_three (JNum (Finite 1)))"
  by (simp add: eval_defs)

lemma transform_no_label:
  "transform plain_engine (response_with level1_no_label level2_three) =
     Inr (expected (JNum (Finite 0.95)) JUndefined groups_three (JNum (Finite 1)))"
  by (simp add: eval_defs)

lemma transform_no_confidence:
  "transform plain_engine (response_with level1_no_confidence level2_three) =
     Inr (expected JUndefined (JStr (ascii ''HAS_GROUPS'')) groups_three (JNum (Finite 1)))"
  by (simp add: eval_defs)

lemma transform_miscounted:
  "transform plain_engine (response_with level1_full level2_miscounted) =
     Inr (expected (JNum (Finite 0.95)) (JStr (ascii ''HAS_GROUPS''))
            [\<lparr> name = ascii ''Alcohol'', probability = JNum (Finite 0.9), detected = True,
               confidence = JNum (Finite 0.9) \<rparr>]
            (JNum (Finite 5)))"
  by (simp add: eval_defs)

lemma transform_no_groups:
  "transform plain_engine (response_with level1_full level2_no_groups) =
     Inl (CannotConvertToObject JUndefined)"
  by (simp add: eval_defs)

lemma transform_unconvertible:
  "transform plain_engine (response_with level1_full level2_unconvertible) =
     Inl (CannotConvertToPrimitive (JObj [(ascii ''toString'', JNum (Finite 0))]))"
  by (simp add: eval_defs)

lemma name_group_of_entry:
  "group_of_entry eng (k, v) = Inr g \<Longrightarrow>
     name g = (case k of [] \<Rightarrow> [] | c # cs \<Rightarrow> upper_unit eng c @ cs)"
proof -
  assume "group_of_entry eng (k, v) = Inr g"
  then obtain n where
    "g = \<lparr> name = toUpperCase eng (charAt_0 k) @ slice_1 k, probability = v,
           detected = greater_than n (Finite 0.5), confidence = v \<rparr>"
    unfolding group_of_entry_Inr_iff by blast
  then show ?thesis
    by (cases k) (simp_all add: toUpperCase_def charAt_0_def slice_1_def)
qed

text \<open>
  C3. When the normalizer succeeds, the records of \<open>functionalGroups\<close> are
  the entries of the \<open>functional_groups\<close> mapping, one record per entry and
  in the order of the entries (for an object, its keys in enumeration order):
  the name is the key with its first code unit upper-cased and the rest
  unchanged (an ASCII lower-case letter becomes the upper-case letter, any
  other ASCII unit stays), \<open>probability\<close> and \<open>confidence\<close> are the value
  of the entry unchanged, and \<open>detected\<close> is the strict comparison of the
  probability with 0.5: for a numeric probability \<open>r\<close> it is \<open>0.5 < r\<close>,
  false at exactly 0.5.
\<close>

theorem one_record_per_group:
  assumes "transform eng result = Inr p"
  shows "\<exists>entries.
      Object_entries (property_of (property_of result (ascii ''level2'')) (ascii ''functional_groups''))
        = Inr entries
    \<and> length (functionalGroups p) = length entries
    \<and> (\<forall>i<length entries.
          name (functionalGroups p ! i) =
            (case fst (entries ! i) of [] \<Rightarrow> [] | c # cs \<Rightarrow> upper_unit eng c @ cs)
        \<and> probability (functionalGroups p ! i) = snd (entries ! i)
        \<and> group.confidence (functionalGroups p ! i) = snd (entries ! i)
        \<and> (\<exists>n. to_number eng (snd (entries ! i)) = Inr n
              \<and> detected (functionalGroups p ! i) = greater_than n (Finite 0.5))
        \<and> (\<forall>r. snd (entries ! i) = JNum (Finite r) \<longrightarrow>
              detected (functionalGroups p ! i) = (r > 0.5))
        \<and> (snd (entries ! i) = JNum (Finite 0.5) \<longrightarrow> \<not> detected (functionalGroups p ! i)))
    \<and> (\<forall>kvs. property_of (property_of result (ascii ''level2'')) (ascii ''functional_groups'') = JObj kvs
          \<longrightarrow> entries = kvs)
    \<and> (\<forall>c. 0x61 \<le> c \<and> c \<le> 0x7A \<longrightarrow> upper_unit eng c = [c - 0x20])
    \<and> (\<forall>c. c < 0x61 \<or> (0x7A < c \<and> c < 0x80) \<longrightarrow> upper_unit eng c = [c])"
proof -
  from assms obtain entries where
    e: "Object_entries (property_of (property_of result (ascii ''level2'')) (ascii ''functional_groups''))
          = Inr entries"
    and g: "map_throwing (group_of_entry eng) entries = Inr (functionalGroups p)"
    unfolding transform_Inr_iff by auto
  from g have all2: "list_all2 (\<lambda>x y. group_of_entry eng x = Inr y) entries (functionalGroups p)"
    by (simp add: map_throwing_Inr_iff)
  then have len: "length (functionalGroups p) = length entries"
    by (simp add: list_all2_lengthD)
  have nth: "group_of_entry eng (entries ! i) = Inr (functionalGroups p ! i)"
    if "i < length entries" for i
    using all2 that by (simp add: list_all2_conv_all_nth)
  have each: "name y = (case fst kv of [] \<Rightarrow> [] | c # cs \<Rightarrow> upper_unit eng c @ cs)
        \<and> probability y = snd kv
        \<and> group.confidence y = snd kv
        \<and> (\<exists>n. to_number eng (snd kv) = Inr n \<and> detected y = greater_than n (Finite 0.5))
        \<and> (\<forall>r. snd kv = JNum (Finite r) \<longrightarrow> detected y = (r > 0.5))
        \<and> (snd kv = JNum (Finite 0.5) \<longrightarrow> \<not> detected y)"
    if "group_of_entry eng kv = Inr y" for kv y
  proof (cases kv)
    case (Pair k v)
    with that have y: "group_of_entry eng (k, v) = Inr y" by simp
    from y obtain n where n: "to_number eng v = Inr n"
      and yv: "y = \<lparr> name = toUpperCase eng (charAt_0 k) @ slice_1 k, probability = v,
                 detected = greater_than n (Finite 0.5), confidence = v \<rparr>"
      unfolding group_of_entry_Inr_iff by blast
    have "name y = (case k of [] \<Rightarrow> [] | c # cs \<Rightarrow> upper_unit eng c @ cs)"
      using y by (rule name_group_of_entry)
    moreover have "probability y = v" "group.confidence y = v"
      "detected y = greater_than n (Finite 0.5)"
      by (simp_all add: yv)
    moreover have "\<forall>r. v = JNum (Finite r) \<longrightarrow> detected y = (r > 0.5)"
      using n by (auto simp: yv)
    moreover have "v = JNum (Finite 0.5) \<longrightarrow> \<not> detected y"
      using n by (auto simp: yv)
    ultimately show ?thesis
      using Pair n by simp
  qed
  have obj: "\<forall>kvs. property_of (property_of result (ascii ''level2'')) (ascii ''functional_groups'') = JObj kvs
          \<longrightarrow> entries = kvs"
    using e by auto
  have up: "\<forall>c. 0x61 \<le> c \<and> c \<le> 0x7A \<longrightarrow> upper_unit eng c = [c - 0x20]"
    by (simp add: upper_unit_def)
  have ascii_unit: "c < 0x80" if "c < 0x61" for c :: code_unit
    using that by (rule order.strict_trans) simp
  have other: "\<forall>c. c < 0x61 \<or> (0x7A < c \<and> c < 0x80) \<longrightarrow> upper_unit eng c = [c]"
    using ascii_unit by (auto simp: upper_unit_def)
  have records: "\<forall>i<length entries.
          name (functionalGroups p ! i) =
            (case fst (entries ! i) of [] \<Rightarrow> [] | c # cs \<Rightarrow> upper_unit eng c @ cs)
        \<and> probability (functionalGroups p ! i) = snd (entries ! i)
        \<and> group.confidence (functionalGroups p ! i) = snd (entries ! i)
        \<and> (\<exists>n. to_number eng (snd (entries ! i)) = Inr n
              \<and> detected (functionalGroups p ! i) = greater_than n (Finite 0.5))
        \<and> (\<forall>r. snd (entries ! i) = JNum (Finite r) \<longrightarrow>
              detected (functionalGroups p ! i) = (r > 0.5))
        \<and> (snd (entries ! i) = JNum (Finite 0.5) \<longrightarrow> \<not> detected (functionalGroups p ! i))"
    using each [OF nth] by blast
  show ?thesis
    using e len records obj up other by (intro exI [of _ entries] conjI)
qed

theorem one_record_per_group_witness:
  "transform plain_engine (response_with level1_full level2_three) =
     Inr (expected (JNum (Finite 0.95)) (JStr (ascii ''HAS_GROUPS'')) groups_three (JNum (Finite 1)))
   \<and> length (functionalGroups
        (expected (JNum (Finite 0.95)) (JStr (ascii ''HAS_GROUPS'')) groups_three (JNum (Finite 1)))) = 3
   \<and> map name groups_three = [ascii ''Alcohol'', ascii ''Amine'', ascii ''Ether'']
   \<and> map detected groups_three = [True, False, False]"
proof -
  have e: "Object_entries
       (property_of (property_of (response_with level1_full level2_three) (ascii ''level2''))
          (ascii ''functional_groups'')) =
     Inr [(ascii ''alcohol'', JNum (Finite 0.9)), (ascii ''amine'', JNum (Finite 0.3)),
          (ascii ''ether'', JNum (Finite 0.5))]"
    by (simp add: response_with_def level2_three_def ascii_def)
  from one_record_per_group [OF transform_full] e
  have "length (functionalGroups
        (expected (JNum (Finite 0.95)) (JStr (ascii ''HAS_GROUPS'')) groups_three (JNum (Finite 1)))) = 3"
    by auto
  then show ?thesis
    using transform_full by (simp add: groups_three_def)
qed

lemma request_prediction_Inr_iff:
  "request_prediction eng outcome = Inr p \<longleftrightarrow>
     (\<exists>ok result. outcome = Response ok (Some result)
        \<and> truthy (property_of result (ascii ''success'')) \<and> transform eng result = Inr p)"
proof (cases outcome)
  case Rejected
  then show ?thesis by (simp add: request_prediction_def)
next
  case (Response ok body)
  show ?thesis
  proof (cases body)
    case None
    with Response show ?thesis by (simp add: request_prediction_def)
  next
    case (Some result)
    have "nullish result \<Longrightarrow> transform eng result \<noteq> Inr p"
      by (simp add: transform_Inr_iff)
    with Response Some show ?thesis
      by (auto simp: request_prediction_def get_def and_then_def)
  qed
qed

lemma handlePrediction_failure:
  assumes "backendConnected (systemStatus st)" and "modelsLoaded (systemStatus st)"
    and "request_prediction eng (fetch s) = Inl e"
  shows "handlePrediction eng fetch startTime now s st =
     st\<lparr>isLoading := False, console_errors := console_errors st @ [e],
        toasts := toasts st @ [Error_PredictionFailed e], predictionData := None\<rparr>"
  using assms by (simp add: handlePrediction_def catch_block_def Let_def)

lemma handlePrediction_success:
  assumes "backendConnected (systemStatus st)" and "modelsLoaded (systemStatus st)"
    and "request_prediction eng (fetch s) = Inr p"
    and "\<not> (truthy (hasGroups p) \<and> ToPrimitive_throws (totalDetected p))"
  shows "handlePrediction eng fetch startTime now s st =
     st\<lparr>isLoading := False, predictionData := Some p,
        totalPredictions := totalPredictions st + 1,
        toasts := toasts st @
          [if truthy (hasGroups p) then Success_Found (totalDetected p) else Success_NoGroups]\<rparr>"
  using assms by (auto simp: handlePrediction_def Let_def)

text \<open>
  Where the success toast cannot be rendered, the \<open>catch\<close> block runs after
  the two state updates: the prediction is cleared again, the count stays
  incremented.
\<close>

lemma handlePrediction_toast_throws:
  assumes "backendConnected (systemStatus st)" and "modelsLoaded (systemStatus st)"
    and "request_prediction eng (fetch s) = Inr p"
    and "truthy (hasGroups p)" and "ToPrimitive_throws (totalDetected p)"
  shows "handlePrediction eng fetch startTime now s st =
     st\<lparr>isLoading := False, totalPredictions := totalPredictions st + 1,
        console_errors := console_errors st @ [CannotConvertToPrimitive (totalDetected p)],
        toasts := toasts st @ [Error_PredictionFailed (CannotConvertToPrimitive (totalDetected p))],
        predictionData := None\<rparr>"
  using assms by (simp add: handlePrediction_def catch_block_def Let_def)

lemma predictionData_handlePrediction:
  assumes "backendConnected (systemStatus st)" and "modelsLoaded (systemStatus st)"
  shows "predictionData (handlePrediction eng fetch startTime now s st) =
     (case request_prediction eng (fetch s) of
        Inl e \<Rightarrow> None
      | Inr p \<Rightarrow> if truthy (hasGroups p) \<and> ToPrimitive_throws (totalDetected p) then None
                 else Some p)"
  using assms by (simp add: handlePrediction_def catch_block_def Let_def split: sum.split)

lemma handlePrediction_not_ready:
  assumes "\<not> (backendConnected (systemStatus st) \<and> modelsLoaded (systemStatus st))"
  shows "handlePrediction eng fetch startTime now s st =
     st\<lparr>toasts := toasts st @
        [if \<not> backendConnected (systemStatus st) then Error_BackendNotConnected
         else Error_ModelsNotLoaded]\<rparr>"
  using assms by (auto simp: handlePrediction_def)

text \<open>
  C2, as amended. The normalizer copies the three stage-1 fields unchanged,
  with no conversion; when the label is absent from the response,
  \<open>level1Prediction\<close> is \<open>undefined\<close>: the normalizer synthesizes
  nothing. The label HAS_GROUPS or NO_GROUPS is made by the display
  (PredictionResults) from \<open>hasGroups\<close>, whenever \<open>level1Prediction\<close> is
  falsy.
\<close>

theorem stage1_fields_copied:
  assumes "transform eng result = Inr p"
  shows "hasGroups p =
           property_of (property_of result (ascii ''level1'')) (ascii ''has_functional_groups'')
       \<and> prediction.confidence p =
           property_of (property_of result (ascii ''level1'')) (ascii ''confidence'')
       \<and> level1Prediction p =
           property_of (property_of result (ascii ''level1'')) (ascii ''prediction'')
       \<and> (\<forall>kvs. property_of result (ascii ''level1'') = JObj kvs
                \<and> map_of kvs (ascii ''prediction'') = None
              \<longrightarrow> level1Prediction p = JUndefined)
       \<and> (\<not> truthy (level1Prediction p) \<longrightarrow>
            binary_prediction p =
              JStr (if truthy (hasGroups p) then ascii ''HAS_GROUPS'' else ascii ''NO_GROUPS''))
       \<and> (truthy (level1Prediction p) \<longrightarrow> binary_prediction p = level1Prediction p)"
proof -
  from assms have
    "hasGroups p =
       property_of (property_of result (ascii ''level1'')) (ascii ''has_functional_groups'')"
    "prediction.confidence p =
       property_of (property_of result (ascii ''level1'')) (ascii ''confidence'')"
    "level1Prediction p =
       property_of (property_of result (ascii ''level1'')) (ascii ''prediction'')"
    unfolding transform_Inr_iff by auto
  then show ?thesis
    by (auto simp: binary_prediction_def)
qed

theorem stage1_fields_copied_witness:
  "transform plain_engine (response_with level1_no_label level2_three) =
     Inr (expected (JNum (Finite 0.95)) JUndefined groups_three (JNum (Finite 1)))
   \<and> level1Prediction (expected (JNum (Finite 0.95)) JUndefined groups_three (JNum (Finite 1)))
       = JUndefined
   \<and> binary_prediction (expected (JNum (Finite 0.95)) JUndefined groups_three (JNum (Finite 1)))
       = JStr (ascii ''HAS_GROUPS'')"
proof -
  have "property_of (response_with level1_no_label level2_three) (ascii ''level1'') =
          JObj [(ascii ''has_functional_groups'', JBool True),
                (ascii ''confidence'', JNum (Finite 0.95))]"
    by (simp add: response_with_def level1_no_label_def ascii_def)
  moreover have "map_of [(ascii ''has_functional_groups'', JBool True),
                (ascii ''confidence'', JNum (Finite 0.95))] (ascii ''prediction'') = None"
    by (simp add: ascii_def)
  moreover have "hasGroups (expected (JNum (Finite 0.95)) JUndefined groups_three (JNum (Finite 1)))
      = JBool True"
    by (simp add: expected_def)
  ultimately show ?thesis
    using stage1_fields_copied [OF transform_no_label] transform_no_label by simp
qed

text \<open>
  C2 as stated fails: for a response with \<open>has_functional_groups\<close> true and
  no label, the normalizer gives \<open>undefined\<close> as the label, not HAS_GROUPS.
\<close>

theorem label_not_synthesized_counterexample:
  "property_of level1_no_label (ascii ''has_functional_groups'') = JBool True
   \<and> property_of level1_no_label (ascii ''prediction'') = JUndefined
   \<and> transform plain_engine (response_with level1_no_label level2_three) =
       Inr (expected (JNum (Finite 0.95)) JUndefined groups_three (JNum (Finite 1)))
   \<and> level1Prediction (expected (JNum (Finite 0.95)) JUndefined groups_three (JNum (Finite 1)))
       \<noteq> JStr (ascii ''HAS_GROUPS'')"
  using transform_no_label by (simp add: level1_no_label_def ascii_def expected_def)

text \<open>
  C7, as amended. The normalizer throws a TypeError when the response, or one
  of its \<open>level1\<close>, \<open>level2\<close>, \<open>metadata\<close> objects, or the
  \<open>functional_groups\<close> mapping is missing or null, and \<open>handlePrediction\<close>
  then takes its error path: no record is stored and the error is shown. It
  throws in these cases and in one more only: a probability of the mapping
  that cannot be converted to a primitive (an object with an own
  \<open>toString\<close> property, or an array that contains one). A response that
  misses any other field is normalized without error: every field of the
  record other than the groups is the field of the response, \<open>undefined\<close>
  where the response has none, except \<open>warnings\<close>, which is the empty list
  where the response has none.
\<close>

theorem missing_container_throws:
  "(isl (transform eng result) \<longleftrightarrow>
       nullish result
     \<or> nullish (property_of result (ascii ''level1''))
     \<or> nullish (property_of result (ascii ''level2''))
     \<or> nullish (property_of result (ascii ''metadata''))
     \<or> nullish (property_of (property_of result (ascii ''level2'')) (ascii ''functional_groups''))
     \<or> (\<exists>entries.
          Object_entries (property_of (property_of result (ascii ''level2'')) (ascii ''functional_groups''))
            = Inr entries
        \<and> list_ex (\<lambda>e. ToPrimitive_throws (snd e)) entries))
   \<and> (backendConnected (systemStatus st) \<and> modelsLoaded (systemStatus st)
        \<and> fetch s = Response ok (Some result)
        \<and> truthy (property_of result (ascii ''success''))
        \<and> isl (transform eng result)
      \<longrightarrow> predictionData (handlePrediction eng fetch startTime now s st) = None
        \<and> toasts (handlePrediction eng fetch startTime now s st) =
            toasts st @ [Error_PredictionFailed (projl (transform eng result))])
   \<and> (transform eng result = Inr p \<longrightarrow>
          smiles p = property_of result (ascii ''smiles'')
        \<and> hasGroups p =
            property_of (property_of result (ascii ''level1'')) (ascii ''has_functional_groups'')
        \<and> prediction.confidence p =
            property_of (property_of result (ascii ''level1'')) (ascii ''confidence'')
        \<and> level1Prediction p =
            property_of (property_of result (ascii ''level1'')) (ascii ''prediction'')
        \<and> detectedGroups p =
            property_of (property_of result (ascii ''level2'')) (ascii ''detected_groups'')
        \<and> totalDetected p =
            property_of (property_of result (ascii ''level2'')) (ascii ''total_detected'')
        \<and> modelUsed p = property_of (property_of result (ascii ''metadata'')) (ascii ''algorithm'')
        \<and> processingTime p = property_of result (ascii ''processing_time'')
        \<and> inDataset p = property_of (property_of result (ascii ''metadata'')) (ascii ''in_dataset'')
        \<and> timestamp p = property_of result (ascii ''timestamp'')
        \<and> featureCount p =
            property_of (property_of result (ascii ''metadata'')) (ascii ''feature_count'')
        \<and> warnings p =
            (if truthy (property_of result (ascii ''warnings''))
             then property_of result (ascii ''warnings'') else JArr [])
        \<and> (property_of result (ascii ''warnings'') = JUndefined \<longrightarrow> warnings p = JArr []))
   \<and> (map_of kvs k = None \<longrightarrow> property_of (JObj kvs) k = JUndefined)"
proof -
  have req: "request_prediction eng (fetch s) = Inl (projl (transform eng result))"
    if "fetch s = Response ok (Some result)" "truthy (property_of result (ascii ''success''))"
      "isl (transform eng result)"
  proof -
    from that(2) have "\<not> nullish result"
      by (auto simp: nullish_def)
    with that show ?thesis
      by (cases "transform eng result") (simp_all add: request_prediction_def get_def and_then_def)
  qed
  have path: "predictionData (handlePrediction eng fetch startTime now s st) = None
        \<and> toasts (handlePrediction eng fetch startTime now s st) =
            toasts st @ [Error_PredictionFailed (projl (transform eng result))]"
    if "backendConnected (systemStatus st)" "modelsLoaded (systemStatus st)"
      "fetch s = Response ok (Some result)" "truthy (property_of result (ascii ''success''))"
      "isl (transform eng result)"
    unfolding handlePrediction_failure [where fetch = fetch and s = s,
        OF that(1) that(2) req [OF that(3) that(4) that(5)]]
    by simp
  have fields: "smiles p = property_of result (ascii ''smiles'')
        \<and> hasGroups p =
            property_of (property_of result (ascii ''level1'')) (ascii ''has_functional_groups'')
        \<and> prediction.confidence p =
            property_of (property_of result (ascii ''level1'')) (ascii ''confidence'')
        \<and> level1Prediction p =
            property_of (property_of result (ascii ''level1'')) (ascii ''prediction'')
        \<and> detectedGroups p =
            property_of (property_of result (ascii ''level2'')) (ascii ''detected_groups'')
        \<and> totalDetected p =
            property_of (property_of result (ascii ''level2'')) (ascii ''total_detected'')
        \<and> modelUsed p = property_of (property_of result (ascii ''metadata'')) (ascii ''algorithm'')
        \<and> processingTime p = property_of result (ascii ''processing_time'')
        \<and> inDataset p = property_of (property_of result (ascii ''metadata'')) (ascii ''in_dataset'')
        \<and> timestamp p = property_of result (ascii ''timestamp'')
        \<and> featureCount p =
            property_of (property_of result (ascii ''metadata'')) (ascii ''feature_count'')
        \<and> warnings p =
            (if truthy (property_of result (ascii ''warnings''))
             then property_of result (ascii ''warnings'') else JArr [])
        \<and> (property_of result (ascii ''warnings'') = JUndefined \<longrightarrow> warnings p = JArr [])"
    if "transform eng result = Inr p"
    using that unfolding transform_Inr_iff by auto
  have absent: "map_of kvs k = None \<longrightarrow> property_of (JObj kvs) k = JUndefined"
    by simp
  show ?thesis
    using isl_transform_iff [of eng result] path fields absent
    by (intro conjI impI) blast+
qed

theorem missing_container_throws_witness:
  "nullish (property_of (property_of (response_with level1_full level2_no_groups) (ascii ''level2''))
      (ascii ''functional_groups''))
   \<and> isl (transform plain_engine (response_with level1_full level2_no_groups))
   \<and> predictionData (handlePrediction plain_engine
        (constant_backend (response_with level1_full level2_no_groups)) 0 1 (ascii ''CCO'')
        (showing empty_prediction)) = None
   \<and> isl (transform plain_engine (response_with level1_full level2_unconvertible))
   \<and> transform plain_engine (response_with level1_no_confidence level2_three) =
       Inr (expected JUndefined (JStr (ascii ''HAS_GROUPS'')) groups_three (JNum (Finite 1)))
   \<and> prediction.confidence
        (expected JUndefined (JStr (ascii ''HAS_GROUPS'')) groups_three (JNum (Finite 1))) = JUndefined
   \<and> warnings
        (expected JUndefined (JStr (ascii ''HAS_GROUPS'')) groups_three (JNum (Finite 1))) = JArr []"
proof -
  have a: "nullish (property_of (property_of (response_with level1_full level2_no_groups) (ascii ''level2''))
      (ascii ''functional_groups''))"
    by (simp add: response_with_def level2_no_groups_def ascii_def nullish_def)
  have b: "truthy (property_of (response_with level1_full level2_no_groups) (ascii ''success''))"
    by (simp add: response_with_def ascii_def)
  have c: "backendConnected (systemStatus (showing empty_prediction))
      \<and> modelsLoaded (systemStatus (showing empty_prediction))"
    by (simp add: showing_def)
  have d: "constant_backend (response_with level1_full level2_no_groups) (ascii ''CCO'') =
      Response True (Some (response_with level1_full level2_no_groups))"
    by (simp add: constant_backend_def)
  have first: "isl (transform plain_engine (response_with level1_full level2_no_groups))
   \<and> predictionData (handlePrediction plain_engine
        (constant_backend (response_with level1_full level2_no_groups)) 0 1 (ascii ''CCO'')
        (showing empty_prediction)) = None"
    using a b c d
      missing_container_throws [of plain_engine "response_with level1_full level2_no_groups"
        "showing empty_prediction" "constant_backend (response_with level1_full level2_no_groups)"
        "ascii ''CCO''" True 0 1]
    by blast
  have e: "Object_entries
       (property_of (property_of (response_with level1_full level2_unconvertible) (ascii ''level2''))
          (ascii ''functional_groups'')) =
     Inr [(ascii ''alcohol'', JObj [(ascii ''toString'', JNum (Finite 0))])]"
    by (simp add: response_with_def level2_unconvertible_def ascii_def)
  have f: "list_ex (\<lambda>e. ToPrimitive_throws (snd e))
      [(ascii ''alcohol'', JObj [(ascii ''toString'', JNum (Finite 0))])]"
    by (simp add: ascii_def)
  have second: "isl (transform plain_engine (response_with level1_full level2_unconvertible))"
    using e f
      missing_container_throws [of plain_engine "response_with level1_full level2_unconvertible"]
    by blast
  have g: "property_of (property_of (response_with level1_no_confidence level2_three)
        (ascii ''level1'')) (ascii ''confidence'') = JUndefined"
    "property_of (response_with level1_no_confidence level2_three) (ascii ''warnings'') = JUndefined"
    by (simp_all add: response_with_def level1_no_confidence_def ascii_def)
  have third: "prediction.confidence
        (expected JUndefined (JStr (ascii ''HAS_GROUPS'')) groups_three (JNum (Finite 1))) = JUndefined
   \<and> warnings
        (expected JUndefined (JStr (ascii ''HAS_GROUPS'')) groups_three (JNum (Finite 1))) = JArr []"
    using g transform_no_confidence
      missing_container_throws [of plain_engine "response_with level1_no_confidence level2_three"
        _ _ _ _ _ _ "expected JUndefined (JStr (ascii ''HAS_GROUPS'')) groups_three (JNum (Finite 1))"]
    by simp
  show ?thesis
    using a first second third transform_no_confidence by blast
qed

text \<open>
  C7 as stated fails: a response without the stage-1 \<open>confidence\<close> is
  normalized without error, into a record whose confidence is \<open>undefined\<close>.
\<close>

theorem missing_confidence_counterexample:
  "property_of level1_no_confidence (ascii ''confidence'') = JUndefined
   \<and> transform plain_engine (response_with level1_no_confidence level2_three) =
       Inr (expected JUndefined (JStr (ascii ''HAS_GROUPS'')) groups_three (JNum (Finite 1)))
   \<and> prediction.confidence
        (expected JUndefined (JStr (ascii ''HAS_GROUPS'')) groups_three (JNum (Finite 1))) = JUndefined"
  using transform_no_confidence by (simp add: level1_no_confidence_def ascii_def expected_def)

text \<open>
  C8. The normalization is a function of the response alone:
  \<open>handlePrediction\<close> gives the same state for any two pairs of clock
  readings, the prediction it stores does not depend on the state before, and
  the \<open>timestamp\<close> of the output is the \<open>timestamp\<close> of the response.
\<close>

theorem normalization_ignores_clock:
  "handlePrediction eng fetch startTime now s st = handlePrediction eng fetch startTime' now' s st
   \<and> (backendConnected (systemStatus st) \<and> modelsLoaded (systemStatus st)
        \<and> backendConnected (systemStatus st') \<and> modelsLoaded (systemStatus st')
      \<longrightarrow> predictionData (handlePrediction eng fetch startTime now s st) =
          predictionData (handlePrediction eng fetch startTime' now' s st'))
   \<and> (transform eng result = Inr p \<longrightarrow> timestamp p = property_of result (ascii ''timestamp''))
   \<and> (backendConnected (systemStatus st) \<and> modelsLoaded (systemStatus st)
        \<and> fetch s = Response ok (Some result)
        \<and> predictionData (handlePrediction eng fetch startTime now s st) = Some p
      \<longrightarrow> transform eng result = Inr p \<and> timestamp p = property_of result (ascii ''timestamp''))"
proof -
  have clock: "handlePrediction eng fetch startTime now s st =
      handlePrediction eng fetch startTime' now' s st"
    by (simp add: handlePrediction_def Let_def)
  have state: "predictionData (handlePrediction eng fetch startTime now s st) =
          predictionData (handlePrediction eng fetch startTime' now' s st')"
    if "backendConnected (systemStatus st)" "modelsLoaded (systemStatus st)"
      "backendConnected (systemStatus st')" "modelsLoaded (systemStatus st')"
    using that by (simp add: predictionData_handlePrediction)
  have stamp: "timestamp p = property_of result (ascii ''timestamp'')"
    if "transform eng result = Inr p" for p
    using that unfolding transform_Inr_iff by auto
  have stored: "transform eng result = Inr p"
    if "backendConnected (systemStatus st)" "modelsLoaded (systemStatus st)"
      "fetch s = Response ok (Some result)"
      "predictionData (handlePrediction eng fetch startTime now s st) = Some p"
  proof (cases "request_prediction eng (fetch s)")
    case (Inl e)
    with that show ?thesis
      by (simp add: predictionData_handlePrediction)
  next
    case (Inr q)
    with that have "q = p"
      by (simp add: predictionData_handlePrediction split: if_splits)
    with Inr that(3) show ?thesis
      by (simp add: request_prediction_Inr_iff)
  qed
  show ?thesis
    using clock state stamp stored by blast
qed

theorem normalization_ignores_clock_witness:
  "predictionData (handlePrediction plain_engine
      (constant_backend (response_with level1_full level2_three)) 0 1 (ascii ''CCO'')
      (showing empty_prediction)) =
     Some (expected (JNum (Finite 0.95)) (JStr (ascii ''HAS_GROUPS'')) groups_three (JNum (Finite 1)))
   \<and> timestamp (expected (JNum (Finite 0.95)) (JStr (ascii ''HAS_GROUPS'')) groups_three
        (JNum (Finite 1))) = JStr (ascii ''2024-01-01'')
   \<and> handlePrediction plain_engine (constant_backend (response_with level1_full level2_three))
        0 1 (ascii ''CCO'') (showing empty_prediction) =
      handlePrediction plain_engine (constant_backend (response_with level1_full level2_three))
        1000 5000 (ascii ''CCO'') (showing empty_prediction)"
proof -
  have ready: "backendConnected (systemStatus (showing empty_prediction))"
    "modelsLoaded (systemStatus (showing empty_prediction))"
    by (simp_all add: showing_def)
  have ok: "truthy (property_of (response_with level1_full level2_three) (ascii ''success''))"
    by (simp add: response_with_def ascii_def)
  have req: "request_prediction plain_engine
      (constant_backend (response_with level1_full level2_three) (ascii ''CCO'')) =
     Inr (expected (JNum (Finite 0.95)) (JStr (ascii ''HAS_GROUPS'')) groups_three (JNum (Finite 1)))"
    unfolding request_prediction_Inr_iff constant_backend_def
    using ok transform_full by blast
  have renders: "\<not> ToPrimitive_throws (totalDetected
      (expected (JNum (Finite 0.95)) (JStr (ascii ''HAS_GROUPS'')) groups_three (JNum (Finite 1))))"
    by (simp add: expected_def)
  have stored: "predictionData (handlePrediction plain_engine
      (constant_backend (response_with level1_full level2_three)) 0 1 (ascii ''CCO'')
      (showing empty_prediction)) =
     Some (expected (JNum (Finite 0.95)) (JStr (ascii ''HAS_GROUPS'')) groups_three (JNum (Finite 1)))"
    using renders by (simp add: predictionData_handlePrediction [OF ready] req)
  have ts: "property_of (response_with level1_full level2_three) (ascii ''timestamp'') =
      JStr (ascii ''2024-01-01'')"
    by (simp add: response_with_def ascii_def)
  have fetched: "constant_backend (response_with level1_full level2_three) (ascii ''CCO'') =
      Response True (Some (response_with level1_full level2_three))"
    by (simp add: constant_backend_def)
  from normalization_ignores_clock
    [of plain_engine "constant_backend (response_with level1_full level2_three)" 0 1
      "ascii ''CCO''" "showing empty_prediction" 1000 5000 "showing empty_prediction"
      "response_with level1_full level2_three"
      "expected (JNum (Finite 0.95)) (JStr (ascii ''HAS_GROUPS'')) groups_three (JNum (Finite 1))"
      True]
  show ?thesis
    using ready stored ts fetched by simp
qed

text \<open>
  C10. \<open>totalDetected\<close> is the \<open>level2.total_detected\<close> of the response,
  unchanged, and for some response it differs from the number of group
  records with \<open>detected\<close> true.
\<close>

theorem total_detected_not_recomputed:
  "(transform eng result = Inr p \<longrightarrow>
      totalDetected p =
        property_of (property_of result (ascii ''level2'')) (ascii ''total_detected''))
   \<and> (\<exists>result' p'. transform eng result' = Inr p'
        \<and> totalDetected p' \<noteq>
            JNum (Finite (real (length (filter detected (functionalGroups p'))))))"
proof -
  have copy: "totalDetected q =
        property_of (property_of r (ascii ''level2'')) (ascii ''total_detected'')"
    if "transform eng r = Inr q" for r q
    using that unfolding transform_Inr_iff by auto
  let ?r = "response_with level1_full level2_miscounted"
  have fg: "property_of (property_of ?r (ascii ''level2'')) (ascii ''functional_groups'') =
      JObj [(ascii ''alcohol'', JNum (Finite 0.9))]"
    by (simp add: response_with_def level2_miscounted_def ascii_def)
  have "\<exists>q. transform eng ?r = Inr q"
    unfolding transform_succeeds_iff fg
    by (simp add: response_with_def level2_miscounted_def level1_full_def ascii_def nullish_def)
  then obtain q where q: "transform eng ?r = Inr q" ..
  have "totalDetected q = JNum (Finite 5)"
    using copy [OF q] by (simp add: response_with_def level2_miscounted_def ascii_def)
  moreover have "length (functionalGroups q) = 1"
    using q fg unfolding transform_Inr_iff map_throwing_Inr_iff
    by (auto dest: list_all2_lengthD)
  then have "length (filter detected (functionalGroups q)) \<le> 1"
    using length_filter_le [of detected "functionalGroups q"] by simp
  ultimately have "totalDetected q \<noteq>
      JNum (Finite (real (length (filter detected (functionalGroups q)))))"
    by auto
  with q copy show ?thesis by blast
qed

theorem total_detected_not_recomputed_witness:
  "transform plain_engine (response_with level1_full level2_miscounted) =
     Inr (expected (JNum (Finite 0.95)) (JStr (ascii ''HAS_GROUPS''))
            [\<lparr> name = ascii ''Alcohol'', probability = JNum (Finite 0.9), detected = True,
               confidence = JNum (Finite 0.9) \<rparr>]
            (JNum (Finite 5)))
   \<and> totalDetected (expected (JNum (Finite 0.95)) (JStr (ascii ''HAS_GROUPS''))
            [\<lparr> name = ascii ''Alcohol'', probability = JNum (Finite 0.9), detected = True,
               confidence = JNum (Finite 0.9) \<rparr>]
            (JNum (Finite 5))) = JNum (Finite 5)
   \<and> length (filter detected (functionalGroups (expected (JNum (Finite 0.95)) (JStr (ascii ''HAS_GROUPS''))
            [\<lparr> name = ascii ''Alcohol'', probability = JNum (Finite 0.9), detected = True,
               confidence = JNum (Finite 0.9) \<rparr>]
            (JNum (Finite 5))))) = 1"
proof -
  have "property_of (property_of (response_with level1_full level2_miscounted) (ascii ''level2''))
      (ascii ''total_detected'') = JNum (Finite 5)"
    by (simp add: response_with_def level2_miscounted_def ascii_def)
  then show ?thesis
    using total_detected_not_recomputed [of plain_engine "response_with level1_full level2_miscounted"
        "expected (JNum (Finite 0.95)) (JStr (ascii ''HAS_GROUPS''))
            [\<lparr> name = ascii ''Alcohol'', probability = JNum (Finite 0.9), detected = True,
               confidence = JNum (Finite 0.9) \<rparr>]
            (JNum (Finite 5))"]
      transform_miscounted
    by (simp add: expected_def)
qed

lemma isl_request_prediction_iff:
  "isl (request_prediction eng outcome) \<longleftrightarrow>
     outcome = Rejected
   \<or> (\<exists>ok. outcome = Response ok None)
   \<or> (\<exists>ok result. outcome = Response ok (Some result)
        \<and> (nullish result \<or> \<not> truthy (property_of result (ascii ''success''))
            \<or> isl (transform eng result)))"
proof (cases outcome)
  case Rejected
  then show ?thesis by (simp add: request_prediction_def)
next
  case (Response ok body)
  show ?thesis
  proof (cases body)
    case None
    with Response show ?thesis by (simp add: request_prediction_def)
  next
    case (Some result)
    with Response show ?thesis
      by (simp add: request_prediction_def get_def and_then_def)
  qed
qed

text \<open>
  C1, as amended. When a prediction request fails (\<open>fetch\<close> rejects, the
  body is not JSON, the \<open>success\<close> of the body is falsy, or the
  transformation throws; the \<open>ok\<close> flag of the response is not read),
  \<open>handlePrediction\<close> shows an error toast and clears the displayed
  prediction: \<open>predictionData\<close> becomes \<open>null\<close>. Only when the request is
  not sent, the backend being disconnected or the models not loaded, an error
  toast is shown and the displayed prediction stays.
\<close>

theorem failed_request_clears_prediction:
  "(backendConnected (systemStatus st) \<and> modelsLoaded (systemStatus st)
      \<and> request_prediction eng (fetch s) = Inl e
    \<longrightarrow> predictionData (handlePrediction eng fetch startTime now s st) = None
      \<and> toasts (handlePrediction eng fetch startTime now s st) =
          toasts st @ [Error_PredictionFailed e]
      \<and> is_error_toast (Error_PredictionFailed e)
      \<and> console_errors (handlePrediction eng fetch startTime now s st) = console_errors st @ [e]
      \<and> isLoading (handlePrediction eng fetch startTime now s st) = False
      \<and> totalPredictions (handlePrediction eng fetch startTime now s st) = totalPredictions st)
   \<and> (isl (request_prediction eng outcome) \<longleftrightarrow>
         outcome = Rejected
       \<or> (\<exists>ok. outcome = Response ok None)
       \<or> (\<exists>ok result. outcome = Response ok (Some result)
            \<and> (nullish result \<or> \<not> truthy (property_of result (ascii ''success''))
                \<or> isl (transform eng result))))
   \<and> request_prediction eng (Response True body) = request_prediction eng (Response False body)
   \<and> (\<not> (backendConnected (systemStatus st) \<and> modelsLoaded (systemStatus st))
    \<longrightarrow> predictionData (handlePrediction eng fetch startTime now s st) = predictionData st
      \<and> (\<exists>t. toasts (handlePrediction eng fetch startTime now s st) = toasts st @ [t]
              \<and> is_error_toast t))"
proof -
  have a: "predictionData (handlePrediction eng fetch startTime now s st) = None
      \<and> toasts (handlePrediction eng fetch startTime now s st) =
          toasts st @ [Error_PredictionFailed e]
      \<and> is_error_toast (Error_PredictionFailed e)
      \<and> console_errors (handlePrediction eng fetch startTime now s st) = console_errors st @ [e]
      \<and> isLoading (handlePrediction eng fetch startTime now s st) = False
      \<and> totalPredictions (handlePrediction eng fetch startTime now s st) = totalPredictions st"
    if "backendConnected (systemStatus st)" "modelsLoaded (systemStatus st)"
      "request_prediction eng (fetch s) = Inl e"
    unfolding handlePrediction_failure [where fetch = fetch and s = s, OF that]
    by simp
  have b: "request_prediction eng (Response True body) = request_prediction eng (Response False body)"
    by (simp add: request_prediction_def)
  have c: "predictionData (handlePrediction eng fetch startTime now s st) = predictionData st
      \<and> (\<exists>t. toasts (handlePrediction eng fetch startTime now s st) = toasts st @ [t]
              \<and> is_error_toast t)"
    if "\<not> (backendConnected (systemStatus st) \<and> modelsLoaded (systemStatus st))"
    unfolding handlePrediction_not_ready [OF that]
    by simp
  show ?thesis
    using a b c isl_request_prediction_iff [of eng outcome] by blast
qed

theorem failed_request_clears_prediction_witness:
  "predictionData (showing empty_prediction) = Some empty_prediction
   \<and> request_prediction plain_engine (unreachable_backend (ascii ''CCO'')) = Inl FetchRejected
   \<and> predictionData (handlePrediction plain_engine unreachable_backend 0 1 (ascii ''CCO'')
        (showing empty_prediction)) = None
   \<and> toasts (handlePrediction plain_engine unreachable_backend 0 1 (ascii ''CCO'')
        (showing empty_prediction)) = [Error_PredictionFailed FetchRejected]"
proof -
  have ready: "backendConnected (systemStatus (showing empty_prediction))
      \<and> modelsLoaded (systemStatus (showing empty_prediction))"
    by (simp add: showing_def)
  have req: "request_prediction plain_engine (unreachable_backend (ascii ''CCO'')) = Inl FetchRejected"
    by (simp add: request_prediction_def unreachable_backend_def)
  have shown: "predictionData (showing empty_prediction) = Some empty_prediction"
    "toasts (showing empty_prediction) = []"
    by (simp_all add: showing_def)
  from failed_request_clears_prediction
    [of "showing empty_prediction" plain_engine unreachable_backend "ascii ''CCO''" FetchRejected 0 1]
  show ?thesis
    using ready req shown by simp
qed

text \<open>
  C1 as stated fails: with a prediction on display and an answer whose
  \<open>success\<close> is false, the displayed prediction is replaced by \<open>null\<close>.
\<close>

theorem prior_prediction_cleared_counterexample:
  "predictionData (showing empty_prediction) = Some empty_prediction
   \<and> request_prediction plain_engine (constant_backend failure_response (ascii ''CCO'')) =
       Inl (ErrorThrown (JStr (ascii ''Invalid SMILES'')))
   \<and> predictionData (handlePrediction plain_engine (constant_backend failure_response) 0 1
        (ascii ''CCO'') (showing empty_prediction)) = None
   \<and> predictionData (handlePrediction plain_engine (constant_backend failure_response) 0 1
        (ascii ''CCO'') (showing empty_prediction)) \<noteq> predictionData (showing empty_prediction)"
  by (simp add: handlePrediction_def request_prediction_def constant_backend_def catch_block_def
      throw_new_Error_def failure_response_def showing_def get_def and_then_def nullish_def
      ascii_def Let_def)

end
